theory Spec2Isabelle
  imports Main "HOL-Library.Multiset"
begin

section \<open>Values of the request body\<close>

text \<open>
  The handlers read \<open>req.body\<close>, the object \<open>express.json()\<close> parsed. A field of it
  is absent (\<open>undefined\<close>), \<open>null\<close>, a boolean, a number or a string. Numbers are the
  integer-valued ones; arrays and nested objects are left out.
\<close>

datatype js_value = JUndefined | JNull | JBool bool | JNum int | JStr string

text \<open>JavaScript's truthiness, as \<open>!tenant_id\<close> and \<open>x || y\<close> read it.\<close>

fun truthy :: "js_value \<Rightarrow> bool" where
  "truthy JUndefined = False"
| "truthy JNull = False"
| "truthy (JBool b) = b"
| "truthy (JNum n) = (n \<noteq> 0)"
| "truthy (JStr s) = (s \<noteq> [])"

type_synonym js_object = "string \<rightharpoonup> js_value"

text \<open>\<open>const { tenant_id } = req.body\<close>: a missing property reads as \<open>undefined\<close>.\<close>

definition property :: "js_object \<Rightarrow> string \<Rightarrow> js_value" where
  "property obj k = (case obj k of None \<Rightarrow> JUndefined | Some v \<Rightarrow> v)"

text \<open>
  Decimal rendering of an integer inside a template literal. JavaScript prints a number
  of magnitude \<open>1e21\<close> or more in exponent form; that form is left out, so the
  rendering is the program's for the numbers below it.
\<close>

fun digit_chars :: "nat \<Rightarrow> string" where
  "digit_chars n =
     (if n < 10 then [char_of (48 + n)]
      else digit_chars (n div 10) @ [char_of (48 + n mod 10)])"

declare digit_chars.simps [simp del]

definition int_to_string :: "int \<Rightarrow> string" where
  "int_to_string i = (if i < 0 then CHR ''-'' # digit_chars (nat (- i)) else digit_chars (nat i))"

fun to_string :: "js_value \<Rightarrow> string" where
  "to_string JUndefined = ''undefined''"
| "to_string JNull = ''null''"
| "to_string (JBool b) = (if b then ''true'' else ''false'')"
| "to_string (JNum n) = int_to_string n"
| "to_string (JStr s) = s"

section \<open>The two stores\<close>

text \<open>
  A tenant row has the eleven columns the remote query selects; \<open>tenant_data\<close> is the
  ten of them the response shows, and the row adds the credential \<open>api_key\<close>.
\<close>

record tenant_data =
  tenant_id :: int
  name :: string
  url :: "string option"
  street :: "string option"
  street2 :: "string option"
  city :: "string option"
  state :: "string option"
  zip_col :: "string option"
  country :: "string option"
  active :: bool

record tenant_row = tenant_data +
  api_key :: "string option"

record meter_reading_row =
  meter_reading_id :: int
  meter_id :: int
  created_at :: int
  is_synchronized :: bool
  retry_count :: nat

record sync_log_row =
  sync_log_id :: int
  operation_type :: string
  batch_size :: int
  success :: bool
  error_message :: "string option"
  synced_at :: int

text \<open>
  The remote store: the tenant table, and \<open>r_fault\<close>, the error every query against it
  throws while it is set (the store cannot be reached, or the driver fails).
\<close>

record remote_db =
  r_fault :: "string option"
  r_tenant :: "tenant_row list"

text \<open>
  The local (sync) store. The tenant table has the unique index on \<open>tenant_id\<close> that
  \<open>ON CONFLICT (tenant_id)\<close> needs, so it is a map from the identifier to the row.
\<close>

record local_db =
  l_fault :: "string option"
  l_tenant :: "int \<rightharpoonup> tenant_row"
  meter_reading :: "meter_reading_row list"
  sync_log :: "sync_log_row list"

datatype pool_access = RemoteAccess | SyncAccess

text \<open>
  The process state a handler sees: the two pool variables of \<open>config/database.ts\<close>
  (\<open>remotePool\<close> may be unset, which \<open>!remotePool\<close> tests) and the queries issued so far,
  in order.
\<close>

record world =
  remotePool :: "remote_db option"
  syncPool :: local_db
  accesses :: "pool_access list"

definition issue :: "pool_access \<Rightarrow> world \<Rightarrow> world" where
  "issue a w = w\<lparr>accesses := accesses w @ [a]\<rparr>"

section \<open>Tenant reconciliation: POST /api/local/tenant-sync\<close>

text \<open>
  \<open>remoteQuery\<close>: \<open>SELECT ... FROM tenant WHERE tenant_id = $1\<close>. The table's schema and
  the server are outside the repository, so how the server reads the bound parameter as
  a tenant identifier is the parameter \<open>bind\<close>: \<open>None\<close> when it rejects the value, and
  then the query throws.
\<close>

definition remote_select ::
  "(js_value \<Rightarrow> int option) \<Rightarrow> remote_db \<Rightarrow> js_value \<Rightarrow> string + tenant_row list" where
  "remote_select bind r v =
     (case r_fault r of
        Some e \<Rightarrow> Inl e
      | None \<Rightarrow>
          (case bind v of
             None \<Rightarrow> Inl ''invalid input syntax''
           | Some k \<Rightarrow> Inr (filter (\<lambda>t. tenant_id t = k) (r_tenant r))))"

text \<open>
  What \<open>pool.query\<close> resolves to: the returned rows and \<open>rowCount\<close>, the number of rows
  the command tag reports.
\<close>

record query_result =
  rows :: "tenant_row list"
  rowCount :: nat

text \<open>
  \<open>upsertQuery\<close>: \<open>INSERT ... ON CONFLICT (tenant_id) DO UPDATE SET\<close> every other column
  \<open>= EXCLUDED\<close>.column \<open>RETURNING *\<close>. Whether the row is inserted or the existing row is
  overwritten, the table then holds the given row under its identifier, the statement
  returns that one row, and its command tag (\<open>INSERT 0 1\<close>) counts one row, inserted or
  updated: \<open>rowCount\<close> is 1 on both paths.
\<close>

definition local_upsert :: "local_db \<Rightarrow> tenant_row \<Rightarrow> string + (local_db \<times> query_result)" where
  "local_upsert db r =
     (case l_fault db of
        Some e \<Rightarrow> Inl e
      | None \<Rightarrow>
          Inr (db\<lparr>l_tenant := (l_tenant db)(tenant_id r \<mapsto> r)\<rparr>,
               \<lparr>rows = [r], rowCount = 1\<rparr>))"

record sync_result =
  inserted :: nat
  updated :: nat
  timestamp :: int

datatype sync_payload =
    Failure string
  | Failure_at string int
  | Synced string sync_result tenant_data

datatype 'a response = Response nat 'a

fun status_of :: "'a response \<Rightarrow> nat" where
  "status_of (Response s p) = s"

fun payload_of :: "'a response \<Rightarrow> 'a" where
  "payload_of (Response s p) = p"

text \<open>
  The handler, branch by branch. \<open>now\<close> is the clock read by \<open>new Date()\<close>. The
  \<open>catch\<close> block answers 500 with the thrown message.
\<close>

definition tenant_sync ::
  "(js_value \<Rightarrow> int option) \<Rightarrow> int \<Rightarrow> world \<Rightarrow> js_object \<Rightarrow> world \<times> sync_payload response" where
  "tenant_sync bind now w body =
     (let tid = property body ''tenant_id'' in
      if \<not> truthy tid then (w, Response 400 (Failure ''tenant_id is required''))
      else
        (case remotePool w of
           None \<Rightarrow> (w, Response 503 (Failure ''Remote database pool not available''))
         | Some remote \<Rightarrow>
             (let w1 = issue RemoteAccess w in
              case remote_select bind remote tid of
                Inl e \<Rightarrow> (w1, Response 500 (Failure_at e now))
              | Inr [] \<Rightarrow>
                  (w1, Response 404
                     (Failure (''Tenant '' @ to_string tid @ '' not found in remote database'')))
              | Inr (remoteTenant # _) \<Rightarrow>
                  (let w2 = issue SyncAccess w1 in
                   case local_upsert (syncPool w2) remoteTenant of
                     Inl e \<Rightarrow> (w2, Response 500 (Failure_at e now))
                   | Inr (db, upsertResult) \<Rightarrow>
                       (case rows upsertResult of
                          [] \<Rightarrow> (w2\<lparr>syncPool := db\<rparr>,
                                 Response 500 (Failure_at ''Cannot read properties of undefined'' now))
                        | localTenant # _ \<Rightarrow>
                            (w2\<lparr>syncPool := db\<rparr>,
                             Response 200
                               (Synced ''Tenant sync completed successfully''
                                  \<lparr>inserted = (if rowCount upsertResult = 1 then 1 else 0),
                                   updated = (if rowCount upsertResult = 1 then 0 else 1),
                                   timestamp = now\<rparr>
                                  (tenant_data.truncate localTenant))))))))"

section \<open>Sync log and status: GET /api/local/sync-status\<close>

text \<open>\<open>SELECT COUNT(*) FROM meter_reading WHERE is_synchronized = false\<close>.\<close>

definition queue_count :: "local_db \<Rightarrow> nat" where
  "queue_count db = length (filter (\<lambda>r. \<not> is_synchronized r) (meter_reading db))"

text \<open>
  \<open>ORDER BY synced_at DESC\<close>: the latest completion time first. Rows with the same
  time keep the order of the table.
\<close>

definition order_by_synced_at_desc :: "sync_log_row list \<Rightarrow> sync_log_row list" where
  "order_by_synced_at_desc ls = sort_key (\<lambda>l. - synced_at l) ls"

text \<open>\<open>logsQuery\<close>: \<open>... FROM sync_log ORDER BY synced_at DESC LIMIT 10\<close>.\<close>

definition recent_logs :: "local_db \<Rightarrow> sync_log_row list" where
  "recent_logs db = take 10 (order_by_synced_at_desc (sync_log db))"

record sync_error =
  err_sync_log_id :: int
  err_batch_size :: int
  err_error_message :: string
  err_synced_at :: int

text \<open>\<open>x || d\<close> on a nullable string: \<open>null\<close> and the empty string are both falsy.\<close>

definition or_else :: "string option \<Rightarrow> 'a \<Rightarrow> (string \<Rightarrow> 'a) \<Rightarrow> 'a" where
  "or_else x d f = (case x of None \<Rightarrow> d | Some s \<Rightarrow> if s = [] then d else f s)"

definition to_sync_error :: "sync_log_row \<Rightarrow> sync_error" where
  "to_sync_error l =
     \<lparr>err_sync_log_id = sync_log_id l,
      err_batch_size = batch_size l,
      err_error_message = or_else (error_message l) ''Unknown error'' (\<lambda>s. s),
      err_synced_at = synced_at l\<rparr>"

record status_body =
  is_connected :: bool
  last_sync_at :: "int option"
  queue_size :: nat
  sync_errors :: "sync_error list"

datatype 'a outcome = Thrown string | Body 'a

text \<open>
  The connectivity probe of both status handlers: \<open>await remotePool.query('SELECT 1')\<close>
  inside its own \<open>try\<close>. An unset pool throws before any query is issued.
\<close>

definition probe_remote :: "world \<Rightarrow> world \<times> bool" where
  "probe_remote w =
     (case remotePool w of
        None \<Rightarrow> (w, False)
      | Some remote \<Rightarrow> (issue RemoteAccess w, r_fault remote = None))"

definition getStatus :: "world \<Rightarrow> world \<times> status_body outcome response" where
  "getStatus w =
     (let w1 = issue SyncAccess w in
      case l_fault (syncPool w) of
        Some e \<Rightarrow> (w1, Response 500 (Thrown e))
      | None \<Rightarrow>
          (let queueSize = queue_count (syncPool w);
               w2 = issue SyncAccess w1;
               recentLogs = recent_logs (syncPool w);
               successfulLogs = filter success recentLogs;
               lastSuccessfulSync =
                 (case successfulLogs of [] \<Rightarrow> None | l # _ \<Rightarrow> Some (synced_at l));
               errorLogs = map to_sync_error (take 10 (filter (\<lambda>l. \<not> success l) recentLogs));
               (w3, isConnected) = probe_remote w2
           in (w3, Response 200
                 (Body \<lparr>is_connected = isConnected,
                        last_sync_at = lastSuccessfulSync,
                        queue_size = queueSize,
                        sync_errors = errorLogs\<rparr>))))"

section \<open>Upload status: GET /api/sync/meter-reading-upload/status\<close>

text \<open>
  \<open>lastUploadQuery\<close>: \<open>... WHERE operation_type = 'upload' ORDER BY synced_at DESC LIMIT 1\<close>.
\<close>

definition last_upload_rows :: "local_db \<Rightarrow> sync_log_row list" where
  "last_upload_rows db =
     take 1 (order_by_synced_at_desc (filter (\<lambda>l. operation_type l = ''upload'') (sync_log db)))"

record upload_status_body =
  is_running :: bool
  last_upload_time :: "int option"
  last_upload_success :: "bool option"
  last_upload_error :: "string option"
  upload_queue_size :: nat
  total_uploaded :: nat
  total_failed :: nat
  is_client_connected :: bool

definition getUploadStatus :: "world \<Rightarrow> world \<times> upload_status_body outcome response" where
  "getUploadStatus w =
     (let w1 = issue SyncAccess w in
      case l_fault (syncPool w) of
        Some e \<Rightarrow> (w1, Response 500 (Thrown e))
      | None \<Rightarrow>
          (let queueSize = queue_count (syncPool w);
               w2 = issue SyncAccess w1;
               lastUpload = (case last_upload_rows (syncPool w) of [] \<Rightarrow> None | l # _ \<Rightarrow> Some l);
               (w3, isClientConnected) = probe_remote w2
           in (w3, Response 200
                 (Body \<lparr>is_running = False,
                        last_upload_time = map_option synced_at lastUpload,
                        last_upload_success = map_option success lastUpload,
                        last_upload_error =
                          (case lastUpload of
                             None \<Rightarrow> None
                           | Some l \<Rightarrow> or_else (error_message l) None Some),
                        upload_queue_size = queueSize,
                        total_uploaded = 0,
                        total_failed = 0,
                        is_client_connected = isClientConnected\<rparr>))))"

section \<open>Connectivity monitor: the hook useConnectionStatus\<close>

datatype ConnectionState = CHECKING | CONNECTED | DISCONNECTED | ERROR

record ConnectionStatusState =
  syncDb :: ConnectionState
  remoteDb :: ConnectionState
  remoteApi :: ConnectionState

definition CHECK_INTERVAL :: nat where
  "CHECK_INTERVAL = 60000"

definition CHECK_TIMEOUT :: nat where
  "CHECK_TIMEOUT = 5000"

text \<open>
  What a \<open>fetch\<close> does if nobody aborts it, with times in milliseconds from the call: it
  resolves with a response of some HTTP status, it rejects (a network error), or it
  stays pending.
\<close>

datatype fetch_behaviour = Resolves nat nat | Rejects nat | Pending

text \<open>\<open>response.ok\<close>: the status is in the range 200 to 299.\<close>

definition response_ok :: "nat \<Rightarrow> bool" where
  "response_ok st = (200 \<le> st \<and> st \<le> 299)"

text \<open>
  \<open>checkConnection\<close>: the timer aborts the request at \<open>timeout\<close>, and the aborted
  \<open>fetch\<close> rejects, so the \<open>catch\<close> returns false. A fetch that settles before the
  timer fires decides the result. The value is the boolean the promise resolves to, and
  the time at which it does.
\<close>

definition checkConnection :: "fetch_behaviour \<Rightarrow> nat \<Rightarrow> bool \<times> nat" where
  "checkConnection fb timeout =
     (case fb of
        Resolves t st \<Rightarrow> if t < timeout then (response_ok st, t) else (False, timeout)
      | Rejects t \<Rightarrow> if t < timeout then (False, t) else (False, timeout)
      | Pending \<Rightarrow> (False, timeout))"

definition to_state :: "bool \<Rightarrow> ConnectionState" where
  "to_state connected = (if connected then CONNECTED else DISCONNECTED)"

text \<open>
  \<open>checkAllConnections\<close>: the three probes, one after the other, each followed by its
  \<open>setStatus\<close>. \<open>net\<close> gives the behaviour of the fetch to each endpoint. The result is
  the state after the pass and the time the pass took.
\<close>

definition checkAllConnections ::
  "(string \<Rightarrow> fetch_behaviour) \<Rightarrow> ConnectionStatusState \<Rightarrow> ConnectionStatusState \<times> nat" where
  "checkAllConnections net prev =
     (let (syncDbConnected, t1) = checkConnection (net ''/api/health/sync-db'') CHECK_TIMEOUT;
          s1 = prev\<lparr>syncDb := to_state syncDbConnected\<rparr>;
          (remoteDbConnected, t2) = checkConnection (net ''/api/health/remote-db'') CHECK_TIMEOUT;
          s2 = s1\<lparr>remoteDb := to_state remoteDbConnected\<rparr>;
          (remoteApiConnected, t3) = checkConnection (net ''/api/local/sync-status'') CHECK_TIMEOUT;
          s3 = s2\<lparr>remoteApi := to_state remoteApiConnected\<rparr>
      in (s3, t1 + t2 + t3))"

definition initial_status :: ConnectionStatusState where
  "initial_status = \<lparr>syncDb = CHECKING, remoteDb = CHECKING, remoteApi = CHECKING\<rparr>"

definition isAllConnected :: "ConnectionStatusState \<Rightarrow> bool" where
  "isAllConnected status =
     (syncDb status = CONNECTED \<and> remoteDb status = CONNECTED \<and> remoteApi status = CONNECTED)"

definition isRemoteSystemConnected :: "ConnectionStatusState \<Rightarrow> bool" where
  "isRemoteSystemConnected status =
     (remoteDb status = CONNECTED \<and> remoteApi status = CONNECTED)"

section \<open>Pool initialization and server startup\<close>

text \<open>
  A line on the console: the method called (\<open>console.log\<close>, \<open>console.error\<close>,
  \<open>console.warn\<close>) and the text of its message.
\<close>

datatype console = ConsoleLog string | ConsoleError string | ConsoleWarn string

text \<open>
  \<open>initializePools\<close>: both pools are created and assigned, then each store is tested
  with \<open>SELECT NOW()\<close> inside a \<open>try\<close> of its own, whose \<open>catch\<close> prints and goes on.
  The value is what the function throws (\<open>Inl\<close>) or the process state it leaves
  (\<open>Inr\<close>), and the lines printed by the two tests.
\<close>

definition initializePools :: "local_db \<Rightarrow> remote_db \<Rightarrow> (string + world) \<times> console list" where
  "initializePools local remote =
     (let w0 = \<lparr>remotePool = Some remote, syncPool = local, accesses = []\<rparr>;
          w1 = issue SyncAccess w0;
          line1 = (case l_fault local of
                     None \<Rightarrow> ConsoleLog ''Sync database connected''
                   | Some e \<Rightarrow> ConsoleError ''Failed to connect to sync database'');
          w2 = issue RemoteAccess w1;
          line2 = (case r_fault remote of
                     None \<Rightarrow> ConsoleLog ''Remote database connected''
                   | Some e \<Rightarrow> ConsoleWarn ''Failed to connect to remote database'')
      in (Inr w2, [line1, line2]))"

datatype server = Listening world | Exited nat

text \<open>
  \<open>startServer\<close>: \<open>await initializePools()\<close>, then listen; its \<open>catch\<close> exits the
  process with code 1.
\<close>

definition startServer :: "local_db \<Rightarrow> remote_db \<Rightarrow> server" where
  "startServer local remote =
     (case fst (initializePools local remote) of
        Inl e \<Rightarrow> Exited 1
      | Inr w \<Rightarrow> Listening w)"

section \<open>Scenarios\<close>

text \<open>
  The scenario of the specification: the remote store holds tenant 7, named Acme, and
  the local store holds no tenant. \<open>bind_number\<close> is a server that takes a number as
  the identifier and rejects every other value.
\<close>

definition bind_number :: "js_value \<Rightarrow> int option" where
  "bind_number v = (case v of JNum n \<Rightarrow> Some n | _ \<Rightarrow> None)"

definition acme :: tenant_row where
  "acme = \<lparr>tenant_id = 7, name = ''Acme'', url = None, street = Some ''1 Main St'',
           street2 = None, city = Some ''Springfield'', state = None, zip_col = None,
           country = None, active = True, api_key = Some ''secret''\<rparr>"

definition remote_acme :: remote_db where
  "remote_acme = \<lparr>r_fault = None, r_tenant = [acme]\<rparr>"

definition empty_local :: local_db where
  "empty_local = \<lparr>l_fault = None, l_tenant = Map.empty, meter_reading = [], sync_log = []\<rparr>"

definition world0 :: world where
  "world0 = \<lparr>remotePool = Some remote_acme, syncPool = empty_local, accesses = []\<rparr>"

definition body7 :: js_object where
  "body7 = [''tenant_id'' \<mapsto> JNum 7]"

definition body99 :: js_object where
  "body99 = [''tenant_id'' \<mapsto> JNum 99]"

text \<open>The local store holds an outdated row of tenant 7.\<close>

definition stale_world :: world where
  "stale_world =
     world0\<lparr>syncPool := empty_local\<lparr>l_tenant := [7 \<mapsto> acme\<lparr>name := ''Old name'', active := False\<rparr>]\<rparr>\<rparr>"

text \<open>Stores that cannot be reached.\<close>

definition broken_local :: local_db where
  "broken_local = empty_local\<lparr>l_fault := Some ''ECONNREFUSED''\<rparr>"

definition broken_remote :: remote_db where
  "broken_remote = remote_acme\<lparr>r_fault := Some ''ECONNREFUSED''\<rparr>"

text \<open>
  The driver sends every query parameter as text, and a server whose \<open>tenant_id\<close> column
  is an integer reads the text back as a number. \<open>bind_text\<close> is such a server: it takes
  a number, or a string of decimal digits, as the identifier.
\<close>

fun digits_value :: "string \<Rightarrow> nat \<Rightarrow> nat option" where
  "digits_value [] acc = Some acc"
| "digits_value (c # cs) acc =
     (if (48 :: nat) \<le> of_char c \<and> of_char c \<le> (57 :: nat)
      then digits_value cs (10 * acc + (of_char c - 48))
      else None)"

definition bind_text :: "js_value \<Rightarrow> int option" where
  "bind_text v =
     (case v of
        JNum n \<Rightarrow> Some n
      | JStr s \<Rightarrow> (if s = [] then None else map_option int (digits_value s 0))
      | _ \<Rightarrow> None)"

text \<open>
  The remote store holds a tenant whose identifier is 0, the local store holds no
  tenant, and the request gives the identifier as the string \<open>"0"\<close>.
\<close>

definition tenant_zero :: tenant_row where
  "tenant_zero = acme\<lparr>tenant_id := 0, name := ''Zero''\<rparr>"

definition zero_world :: world where
  "zero_world =
     \<lparr>remotePool = Some \<lparr>r_fault = None, r_tenant = [tenant_zero, acme]\<rparr>,
      syncPool = empty_local, accesses = []\<rparr>"

definition body_zero_text :: js_object where
  "body_zero_text = [''tenant_id'' \<mapsto> JStr ''0'']"

text \<open>
  The process state that \<open>startServer\<close> leaves when the remote store cannot be reached
  and the local one can.
\<close>

definition remote_down_world :: world where
  "remote_down_world =
     \<lparr>remotePool = Some broken_remote, syncPool = empty_local,
      accesses = [SyncAccess, RemoteAccess]\<rparr>"

text \<open>
  A sync log of twelve attempts, completed at times 100 to 1200: the even ones are
  uploads, the fifth and the tenth succeeded, every third one recorded a message. Of
  three readings, two are not synchronized.
\<close>

definition example_log :: "sync_log_row list" where
  "example_log =
     map (\<lambda>i. \<lparr>sync_log_id = int i,
                operation_type = (if even i then ''upload'' else ''tenant-sync''),
                batch_size = 5,
                success = (i mod 5 = 0),
                error_message = (if i mod 3 = 0 then Some ''timeout'' else None),
                synced_at = 100 * int i\<rparr>)
       [1, 2, 3, 4, 5, 6, 7, 8, 9, 10, 11, 12 :: nat]"

definition example_readings :: "meter_reading_row list" where
  "example_readings =
     [\<lparr>meter_reading_id = 1, meter_id = 1, created_at = 10, is_synchronized = False,
       retry_count = 2\<rparr>,
      \<lparr>meter_reading_id = 2, meter_id = 1, created_at = 20, is_synchronized = True,
       retry_count = 0\<rparr>,
      \<lparr>meter_reading_id = 3, meter_id = 2, created_at = 30, is_synchronized = False,
       retry_count = 0\<rparr>]"

definition status_world :: world where
  "status_world =
     \<lparr>remotePool = Some remote_acme,
      syncPool = empty_local\<lparr>meter_reading := example_readings, sync_log := example_log\<rparr>,
      accesses = []\<rparr>"

text \<open>A network on which the local health endpoint answers 503 and the other two 200.\<close>

definition local_down_net :: "string \<Rightarrow> fetch_behaviour" where
  "local_down_net endpoint =
     (if endpoint = ''/api/health/sync-db'' then Resolves 40 503 else Resolves 25 200)"

section \<open>Properties of tenant reconciliation\<close>

subsection \<open>The handler, one branch at a time\<close>

lemma tenant_sync_invalid:
  "\<not> truthy (property body ''tenant_id'') \<Longrightarrow>
   tenant_sync bind now w body = (w, Response 400 (Failure ''tenant_id is required''))"
  by (simp add: tenant_sync_def)

lemma tenant_sync_no_pool:
  "truthy (property body ''tenant_id'') \<Longrightarrow> remotePool w = None \<Longrightarrow>
   tenant_sync bind now w body =
     (w, Response 503 (Failure ''Remote database pool not available''))"
  by (simp add: tenant_sync_def)

lemma tenant_sync_remote_throws:
  "truthy (property body ''tenant_id'') \<Longrightarrow> remotePool w = Some r \<Longrightarrow>
   remote_select bind r (property body ''tenant_id'') = Inl e \<Longrightarrow>
   tenant_sync bind now w body = (issue RemoteAccess w, Response 500 (Failure_at e now))"
  by (simp add: tenant_sync_def)

lemma tenant_sync_not_found:
  "truthy (property body ''tenant_id'') \<Longrightarrow> remotePool w = Some r \<Longrightarrow>
   remote_select bind r (property body ''tenant_id'') = Inr [] \<Longrightarrow>
   tenant_sync bind now w body =
     (issue RemoteAccess w,
      Response 404 (Failure (''Tenant '' @ to_string (property body ''tenant_id'') @
                               '' not found in remote database'')))"
  by (simp add: tenant_sync_def)

lemma tenant_sync_local_throws:
  "truthy (property body ''tenant_id'') \<Longrightarrow> remotePool w = Some r \<Longrightarrow>
   remote_select bind r (property body ''tenant_id'') = Inr (t # ts) \<Longrightarrow>
   l_fault (syncPool w) = Some e \<Longrightarrow>
   tenant_sync bind now w body =
     (issue SyncAccess (issue RemoteAccess w), Response 500 (Failure_at e now))"
  by (simp add: tenant_sync_def local_upsert_def issue_def)

lemma tenant_sync_synced:
  "truthy (property body ''tenant_id'') \<Longrightarrow> remotePool w = Some r \<Longrightarrow>
   remote_select bind r (property body ''tenant_id'') = Inr (t # ts) \<Longrightarrow>
   l_fault (syncPool w) = None \<Longrightarrow>
   tenant_sync bind now w body =
     ((issue SyncAccess (issue RemoteAccess w))
        \<lparr>syncPool := (syncPool w)\<lparr>l_tenant := (l_tenant (syncPool w))(tenant_id t \<mapsto> t)\<rparr>\<rparr>,
      Response 200
        (Synced ''Tenant sync completed successfully''
           \<lparr>inserted = 1, updated = 0, timestamp = now\<rparr>
           (tenant_data.truncate t)))"
  by (simp add: tenant_sync_def local_upsert_def issue_def)

subsection \<open>The scenarios, evaluated\<close>

lemma body7_id: "property body7 ''tenant_id'' = JNum 7"
  by (simp add: body7_def property_def)

lemma body99_id: "property body99 ''tenant_id'' = JNum 99"
  by (simp add: body99_def property_def)

lemma select_acme: "remote_select bind_number remote_acme (JNum 7) = Inr [acme]"
  by (simp add: remote_select_def bind_number_def remote_acme_def acme_def)

lemma select_99: "remote_select bind_number remote_acme (JNum 99) = Inr []"
  by (simp add: remote_select_def bind_number_def remote_acme_def acme_def)

lemma world0_fields:
  "remotePool world0 = Some remote_acme"
  "l_fault (syncPool world0) = None"
  "l_tenant (syncPool world0) 7 = None"
  "accesses world0 = []"
  by (simp_all add: world0_def empty_local_def)

lemma stale_world_fields:
  "remotePool stale_world = Some remote_acme"
  "l_fault (syncPool stale_world) = None"
  "l_tenant (syncPool stale_world) 7 = Some (acme\<lparr>name := ''Old name'', active := False\<rparr>)"
  by (simp_all add: stale_world_def world0_def empty_local_def)

lemma first_sync_world0:
  "tenant_sync bind_number 1000 world0 body7 =
     (\<lparr>remotePool = Some remote_acme,
       syncPool = empty_local\<lparr>l_tenant := [7 \<mapsto> acme]\<rparr>,
       accesses = [RemoteAccess, SyncAccess]\<rparr>,
      Response 200
        (Synced ''Tenant sync completed successfully''
           \<lparr>inserted = 1, updated = 0, timestamp = 1000\<rparr>
           (tenant_data.truncate acme)))"
proof -
  have "tenant_id acme = 7"
    by (simp add: acme_def)
  then show ?thesis
    using tenant_sync_synced [of body7 world0 remote_acme bind_number acme "[]" 1000]
    by (simp add: body7_id select_acme world0_fields) (simp add: world0_def issue_def empty_local_def)
qed

text \<open>
  C1. Every successful tenant sync reports \<open>inserted = 1\<close> when the local store had no
  row for the tenant before the call, and \<open>updated = 1\<close> with \<open>inserted = 0\<close> when a row
  existed; a first sync inserts, and an immediate second sync reports \<open>updated = 1\<close> with
  the same \<open>tenant_data\<close>.

  The handler derives both counters from \<open>rowCount === 1\<close>, and the upsert affects one
  row on either path. In the scenario the first sync reports \<open>inserted = 1\<close>; the second
  one, sent when the local store holds the row of tenant 7, reports \<open>inserted = 1\<close> and
  \<open>updated = 0\<close> again, with the same \<open>tenant_data\<close>.
\<close>

theorem tenant_sync_repeat_reports_inserted:
  "snd (tenant_sync bind_number 1000 world0 body7) =
     Response 200
       (Synced ''Tenant sync completed successfully''
          \<lparr>inserted = 1, updated = 0, timestamp = 1000\<rparr> (tenant_data.truncate acme)) \<and>
   l_tenant (syncPool (fst (tenant_sync bind_number 1000 world0 body7))) 7 = Some acme \<and>
   snd (tenant_sync bind_number 2000 (fst (tenant_sync bind_number 1000 world0 body7)) body7) =
     Response 200
       (Synced ''Tenant sync completed successfully''
          \<lparr>inserted = 1, updated = 0, timestamp = 2000\<rparr> (tenant_data.truncate acme))"
proof -
  let ?w1 = "\<lparr>remotePool = Some remote_acme,
       syncPool = empty_local\<lparr>l_tenant := [7 \<mapsto> acme]\<rparr>,
       accesses = [RemoteAccess, SyncAccess]\<rparr>"
  have "l_fault (syncPool ?w1) = None"
    by (simp add: empty_local_def)
  then have "snd (tenant_sync bind_number 2000 ?w1 body7) =
     Response 200
       (Synced ''Tenant sync completed successfully''
          \<lparr>inserted = 1, updated = 0, timestamp = 2000\<rparr> (tenant_data.truncate acme))"
    using tenant_sync_synced [of body7 ?w1 remote_acme bind_number acme "[]" 2000]
    by (simp add: body7_id select_acme)
  then show ?thesis
    by (simp add: first_sync_world0)
qed

text \<open>
  The branches of the handler in their order: 400 for a body without \<open>tenant_id\<close>,
  with nothing of the process state changed; then 503 if the variable \<open>remotePool\<close> is
  unset, 404 if the remote query returns no row, and 200 if it returns one and the local
  upsert completes.
\<close>

lemma tenant_sync_status_cascade:
  "(body ''tenant_id'' = None \<longrightarrow>
      status_of (snd (tenant_sync bind now w body)) = 400 \<and>
      (\<exists>msg. payload_of (snd (tenant_sync bind now w body)) = Failure msg) \<and>
      fst (tenant_sync bind now w body) = w \<and>
      accesses (fst (tenant_sync bind now w body)) = accesses w) \<and>
   (truthy (property body ''tenant_id'') \<and> remotePool w = None \<longrightarrow>
      status_of (snd (tenant_sync bind now w body)) = 503 \<and>
      (\<exists>msg. payload_of (snd (tenant_sync bind now w body)) = Failure msg)) \<and>
   (truthy (property body ''tenant_id'') \<and> remotePool w = Some r \<and>
    remote_select bind r (property body ''tenant_id'') = Inr [] \<longrightarrow>
      status_of (snd (tenant_sync bind now w body)) = 404 \<and>
      (\<exists>msg. payload_of (snd (tenant_sync bind now w body)) = Failure msg)) \<and>
   (truthy (property body ''tenant_id'') \<and> remotePool w = Some r \<and>
    remote_select bind r (property body ''tenant_id'') = Inr (t # ts) \<and>
    l_fault (syncPool w) = None \<longrightarrow>
      status_of (snd (tenant_sync bind now w body)) = 200 \<and>
      (\<exists>msg res. payload_of (snd (tenant_sync bind now w body)) =
          Synced msg res (tenant_data.truncate t)))"
proof -
  have lacks: "body ''tenant_id'' = None \<Longrightarrow> \<not> truthy (property body ''tenant_id'')"
    by (simp add: property_def)
  show ?thesis
    using lacks
    by (auto simp: tenant_sync_invalid tenant_sync_no_pool tenant_sync_not_found
        tenant_sync_synced)
qed

lemma startServer_assigns_pool:
  "startServer local remote = Listening w \<Longrightarrow> remotePool w = Some remote"
  by (auto simp: startServer_def initializePools_def issue_def)

lemma tenant_sync_503_needs_unset_pool:
  "status_of (snd (tenant_sync bind now w body)) = 503 \<Longrightarrow> remotePool w = None"
  by (cases "remotePool w")
    (auto simp: tenant_sync_def Let_def split: if_splits sum.splits list.splits prod.splits)

text \<open>
  C3. Tenant sync answers 400 when the request body has no \<open>tenant_id\<close>, before any
  access to either store, 503 when the remote pool is unavailable, 404 when the remote
  store has no row for the identifier, and 200 otherwise.

  The 503 branch tests whether the variable \<open>remotePool\<close> is set, and \<open>initializePools\<close>
  sets it before the server listens, so no request is answered by it. When the remote
  store cannot be reached, the server has started with the pool assigned, the remote
  query of a sync for tenant 7 throws, and the \<open>catch\<close> block answers 500 with the
  thrown message.
\<close>

theorem tenant_sync_remote_down_answers_500:
  "startServer empty_local broken_remote = Listening remote_down_world \<and>
   remotePool remote_down_world = Some broken_remote \<and>
   r_fault broken_remote = Some ''ECONNREFUSED'' \<and>
   truthy (property body7 ''tenant_id'') \<and>
   tenant_sync bind_number 1000 remote_down_world body7 =
     (issue RemoteAccess remote_down_world,
      Response 500 (Failure_at ''ECONNREFUSED'' 1000)) \<and>
   status_of (snd (tenant_sync bind_number 1000 remote_down_world body7)) = 500"
proof -
  have start: "startServer empty_local broken_remote = Listening remote_down_world"
    by (simp add: startServer_def initializePools_def issue_def remote_down_world_def)
  have pool: "remotePool remote_down_world = Some broken_remote"
    by (simp add: remote_down_world_def)
  have fault: "r_fault broken_remote = Some ''ECONNREFUSED''"
    by (simp add: broken_remote_def)
  have valid: "truthy (property body7 ''tenant_id'')"
    by (simp add: body7_id)
  have "remote_select bind_number broken_remote (property body7 ''tenant_id'') =
      Inl ''ECONNREFUSED''"
    by (simp add: remote_select_def fault)
  then have sync: "tenant_sync bind_number 1000 remote_down_world body7 =
     (issue RemoteAccess remote_down_world,
      Response 500 (Failure_at ''ECONNREFUSED'' 1000))"
    using valid pool by (simp add: tenant_sync_remote_throws)
  from start pool fault valid sync show ?thesis
    by simp
qed

text \<open>
  C4. When the remote store can be queried and holds no tenant row with the requested
  identifier, tenant sync answers 404 with a message that names the identifier, and the
  local store is as it was: the only query issued is the remote lookup, and nothing is
  written to the local tenant table.
\<close>

theorem tenant_sync_absent_remote:
  assumes "truthy (property body ''tenant_id'')"
    and "remotePool w = Some r"
    and "r_fault r = None"
    and "bind (property body ''tenant_id'') = Some k"
    and "k \<notin> tenant_id ` set (r_tenant r)"
  shows "snd (tenant_sync bind now w body) =
           Response 404 (Failure (''Tenant '' @ to_string (property body ''tenant_id'') @
                                    '' not found in remote database'')) \<and>
         syncPool (fst (tenant_sync bind now w body)) = syncPool w \<and>
         accesses (fst (tenant_sync bind now w body)) = accesses w @ [RemoteAccess]"
proof -
  have "filter (\<lambda>t. tenant_id t = k) (r_tenant r) = []"
    using assms(5) by (auto simp: filter_empty_conv)
  then have "remote_select bind r (property body ''tenant_id'') = Inr []"
    using assms(3,4) by (simp add: remote_select_def)
  then show ?thesis
    using assms(1,2) by (simp add: tenant_sync_not_found issue_def)
qed

theorem tenant_sync_absent_remote_witness:
  "truthy (property body99 ''tenant_id'') \<and>
   remotePool stale_world = Some remote_acme \<and>
   r_fault remote_acme = None \<and>
   bind_number (property body99 ''tenant_id'') = Some 99 \<and>
   99 \<notin> tenant_id ` set (r_tenant remote_acme) \<and>
   snd (tenant_sync bind_number 1000 stale_world body99) =
     Response 404 (Failure ''Tenant 99 not found in remote database'') \<and>
   syncPool (fst (tenant_sync bind_number 1000 stale_world body99)) = syncPool stale_world \<and>
   accesses (fst (tenant_sync bind_number 1000 stale_world body99)) = [RemoteAccess]"
proof -
  have h1: "truthy (property body99 ''tenant_id'')"
    by (simp add: body99_id)
  have h3: "r_fault remote_acme = None"
    by (simp add: remote_acme_def)
  have h4: "bind_number (property body99 ''tenant_id'') = Some 99"
    by (simp add: body99_id bind_number_def)
  have h5: "99 \<notin> tenant_id ` set (r_tenant remote_acme)"
    by (simp add: remote_acme_def acme_def)
  have shown: "to_string (property body99 ''tenant_id'') = ''99''"
    unfolding body99_id by code_simp
  have none: "accesses stale_world = []"
    by (simp add: stale_world_def world0_def)
  from tenant_sync_absent_remote
    [where bind = bind_number and body = body99 and w = stale_world and r = remote_acme
       and k = 99 and now = 1000, OF h1 stale_world_fields(1) h3 h4 h5]
  show ?thesis
    using h1 h3 h4 h5 stale_world_fields(1) by (simp add: shown none)
qed

text \<open>
  C5. Tenant reconciliation is idempotent on the local row. A sync that succeeds
  leaves, under the tenant's identifier, exactly the row the remote store returned,
  whatever the local store held before: the upsert overwrites name, url, the address
  columns, the active flag and the api key with the remote values. A second sync right
  after it, the remote row being the same, succeeds too and leaves the local tenant
  table as the first one left it.
\<close>

theorem tenant_sync_idempotent:
  assumes "truthy (property body ''tenant_id'')"
    and "remotePool w = Some r"
    and "remote_select bind r (property body ''tenant_id'') = Inr (t # ts)"
    and "l_fault (syncPool w) = None"
    and "w1 = fst (tenant_sync bind now1 w body)"
    and "w2 = fst (tenant_sync bind now2 w1 body)"
  shows "l_tenant (syncPool w1) (tenant_id t) = Some t \<and>
         l_tenant (syncPool w2) (tenant_id t) = Some t \<and>
         l_tenant (syncPool w2) = l_tenant (syncPool w1) \<and>
         status_of (snd (tenant_sync bind now1 w body)) = 200 \<and>
         status_of (snd (tenant_sync bind now2 w1 body)) = 200"
proof -
  have first: "tenant_sync bind now1 w body =
     ((issue SyncAccess (issue RemoteAccess w))
        \<lparr>syncPool := (syncPool w)\<lparr>l_tenant := (l_tenant (syncPool w))(tenant_id t \<mapsto> t)\<rparr>\<rparr>,
      Response 200
        (Synced ''Tenant sync completed successfully''
           \<lparr>inserted = 1, updated = 0, timestamp = now1\<rparr>
           (tenant_data.truncate t)))"
    using assms(1-4) by (simp add: tenant_sync_synced)
  then have w1: "w1 = (issue SyncAccess (issue RemoteAccess w))
        \<lparr>syncPool := (syncPool w)\<lparr>l_tenant := (l_tenant (syncPool w))(tenant_id t \<mapsto> t)\<rparr>\<rparr>"
    using assms(5) by simp
  have pool1: "remotePool w1 = Some r" and fault1: "l_fault (syncPool w1) = None"
    using w1 assms(2,4) by (simp_all add: issue_def)
  have second: "tenant_sync bind now2 w1 body =
     ((issue SyncAccess (issue RemoteAccess w1))
        \<lparr>syncPool := (syncPool w1)\<lparr>l_tenant := (l_tenant (syncPool w1))(tenant_id t \<mapsto> t)\<rparr>\<rparr>,
      Response 200
        (Synced ''Tenant sync completed successfully''
           \<lparr>inserted = 1, updated = 0, timestamp = now2\<rparr>
           (tenant_data.truncate t)))"
    using assms(1,3) pool1 fault1 by (simp add: tenant_sync_synced)
  have row1: "l_tenant (syncPool w1) (tenant_id t) = Some t"
    using w1 by simp
  have tbl2: "l_tenant (syncPool w2) = (l_tenant (syncPool w1))(tenant_id t \<mapsto> t)"
    using second assms(6) by simp
  have same: "l_tenant (syncPool w2) = l_tenant (syncPool w1)"
    using tbl2 row1 by (simp add: map_upd_triv)
  show ?thesis
    using row1 same first second by simp
qed

theorem tenant_sync_idempotent_witness:
  "truthy (property body7 ''tenant_id'') \<and>
   remotePool stale_world = Some remote_acme \<and>
   remote_select bind_number remote_acme (property body7 ''tenant_id'') = Inr [acme] \<and>
   l_fault (syncPool stale_world) = None \<and>
   l_tenant (syncPool stale_world) 7 = Some (acme\<lparr>name := ''Old name'', active := False\<rparr>) \<and>
   l_tenant (syncPool (fst (tenant_sync bind_number 1000 stale_world body7))) 7 = Some acme \<and>
   l_tenant (syncPool (fst (tenant_sync bind_number 2000
      (fst (tenant_sync bind_number 1000 stale_world body7)) body7))) 7 = Some acme \<and>
   status_of (snd (tenant_sync bind_number 2000
      (fst (tenant_sync bind_number 1000 stale_world body7)) body7)) = 200"
proof -
  have h1: "truthy (property body7 ''tenant_id'')"
    by (simp add: body7_id)
  have h3: "remote_select bind_number remote_acme (property body7 ''tenant_id'') = Inr [acme]"
    by (simp add: body7_id select_acme)
  have id7: "tenant_id acme = 7"
    by (simp add: acme_def)
  from tenant_sync_idempotent
    [where bind = bind_number and body = body7 and w = stale_world and r = remote_acme
       and t = acme and ts = "[]" and ?now1.0 = 1000 and ?now2.0 = 2000,
     OF h1 stale_world_fields(1) h3 stale_world_fields(2) refl refl]
  show ?thesis
    using h1 h3 stale_world_fields by (simp add: id7)
qed

lemma bind_text_zero: "bind_text (JStr ''0'') = Some 0"
  by (simp add: bind_text_def)

text \<open>
  C10, as the claim states it: since a falsy \<open>tenant_id\<close> is rejected, the tenant with
  identifier 0 can never be reconciled through the endpoint. It can: the string \<open>"0"\<close>
  is not empty, so it passes the presence test, the server reads it as 0, and the sync
  answers 200 and writes the row of tenant 0 to the local store.
\<close>

theorem tenant_sync_text_zero_reconciles:
  "truthy (property body_zero_text ''tenant_id'') \<and>
   l_tenant (syncPool zero_world) 0 = None \<and>
   snd (tenant_sync bind_text 1000 zero_world body_zero_text) =
     Response 200
       (Synced ''Tenant sync completed successfully''
          \<lparr>inserted = 1, updated = 0, timestamp = 1000\<rparr> (tenant_data.truncate tenant_zero)) \<and>
   l_tenant (syncPool (fst (tenant_sync bind_text 1000 zero_world body_zero_text))) 0 =
     Some tenant_zero"
proof -
  have tid: "property body_zero_text ''tenant_id'' = JStr ''0''"
    by (simp add: body_zero_text_def property_def)
  have id0: "tenant_id tenant_zero = 0"
    by (simp add: tenant_zero_def)
  have pool: "remotePool zero_world = Some \<lparr>r_fault = None, r_tenant = [tenant_zero, acme]\<rparr>"
    and up: "l_fault (syncPool zero_world) = None"
    and none: "l_tenant (syncPool zero_world) 0 = None"
    by (simp_all add: zero_world_def empty_local_def)
  have sel: "remote_select bind_text \<lparr>r_fault = None, r_tenant = [tenant_zero, acme]\<rparr>
      (property body_zero_text ''tenant_id'') = Inr [tenant_zero]"
    by (simp add: remote_select_def tid bind_text_zero id0 acme_def)
  have valid: "truthy (property body_zero_text ''tenant_id'')"
    by (simp add: tid)
  from tenant_sync_synced [OF valid pool sel up, of 1000] none valid show ?thesis
    by (simp add: id0)
qed

text \<open>
  C10, amended. The presence test of tenant sync is JavaScript truthiness. Every request
  whose \<open>tenant_id\<close> is falsy is answered 400 with the message \<open>tenant_id is required\<close>,
  the process state untouched, also when the field is there: the number 0, the empty
  string, \<open>null\<close> and \<open>false\<close> are rejected like an absent field, and only falsy values
  are. A request that gives the identifier as the number 0 is therefore never reconciled,
  whatever the stores hold. A truthy value that the remote server reads as 0, such as the
  string \<open>"0"\<close>, passes the test: when the remote store returns the row of tenant 0 and
  the local upsert completes, the sync answers 200 and the local store holds that row.
\<close>

theorem tenant_sync_falsy_rejected:
  "(\<not> truthy (property body ''tenant_id'') \<longrightarrow>
      tenant_sync bind now w body = (w, Response 400 (Failure ''tenant_id is required''))) \<and>
   (truthy (property body ''tenant_id'') \<longrightarrow>
      status_of (snd (tenant_sync bind now w body)) \<noteq> 400) \<and>
   tenant_sync bind now w (body(''tenant_id'' \<mapsto> JNum 0)) =
      (w, Response 400 (Failure ''tenant_id is required'')) \<and>
   tenant_sync bind now w (body(''tenant_id'' \<mapsto> JStr [])) =
      (w, Response 400 (Failure ''tenant_id is required'')) \<and>
   tenant_sync bind now w (body(''tenant_id'' \<mapsto> JNull)) =
      (w, Response 400 (Failure ''tenant_id is required'')) \<and>
   tenant_sync bind now w (body(''tenant_id'' \<mapsto> JBool False)) =
      (w, Response 400 (Failure ''tenant_id is required'')) \<and>
   l_tenant (syncPool (fst (tenant_sync bind now w (body(''tenant_id'' \<mapsto> JNum 0))))) 0 =
      l_tenant (syncPool w) 0 \<and>
   (truthy v \<and> bind v = Some 0 \<and> remotePool w = Some r \<and> r_fault r = None \<and>
    filter (\<lambda>t. tenant_id t = 0) (r_tenant r) = t # ts \<and> l_fault (syncPool w) = None \<longrightarrow>
      status_of (snd (tenant_sync bind now w (body(''tenant_id'' \<mapsto> v)))) = 200 \<and>
      l_tenant (syncPool (fst (tenant_sync bind now w (body(''tenant_id'' \<mapsto> v))))) 0 =
        Some t)"
proof -
  have accepted: "truthy (property body ''tenant_id'') \<longrightarrow>
      status_of (snd (tenant_sync bind now w body)) \<noteq> 400"
    by (simp add: tenant_sync_def Let_def split: option.splits sum.splits list.splits prod.splits)
  have zero: "truthy v \<and> bind v = Some 0 \<and> remotePool w = Some r \<and> r_fault r = None \<and>
    filter (\<lambda>t. tenant_id t = 0) (r_tenant r) = t # ts \<and> l_fault (syncPool w) = None \<longrightarrow>
      status_of (snd (tenant_sync bind now w (body(''tenant_id'' \<mapsto> v)))) = 200 \<and>
      l_tenant (syncPool (fst (tenant_sync bind now w (body(''tenant_id'' \<mapsto> v))))) 0 =
        Some t"
  proof
    assume h: "truthy v \<and> bind v = Some 0 \<and> remotePool w = Some r \<and> r_fault r = None \<and>
      filter (\<lambda>t. tenant_id t = 0) (r_tenant r) = t # ts \<and> l_fault (syncPool w) = None"
    let ?body = "body(''tenant_id'' \<mapsto> v)"
    have tid: "property ?body ''tenant_id'' = v"
      by (simp add: property_def)
    have "t \<in> set (filter (\<lambda>t. tenant_id t = 0) (r_tenant r))"
      using h by simp
    then have id0: "tenant_id t = 0"
      by simp
    have sel: "remote_select bind r (property ?body ''tenant_id'') = Inr (t # ts)"
      using h by (simp add: remote_select_def tid)
    have valid: "truthy (property ?body ''tenant_id'')"
      using h by (simp add: tid)
    from h have pool: "remotePool w = Some r" and up: "l_fault (syncPool w) = None"
      by simp_all
    show "status_of (snd (tenant_sync bind now w ?body)) = 200 \<and>
      l_tenant (syncPool (fst (tenant_sync bind now w ?body))) 0 = Some t"
      by (simp add: tenant_sync_synced [OF valid pool sel up] id0)
  qed
  from accepted zero show ?thesis
    by (simp add: tenant_sync_invalid property_def)
qed

theorem tenant_sync_falsy_rejected_witness:
  "\<not> truthy (property Map.empty ''tenant_id'') \<and>
   tenant_sync bind_number 1000 world0 Map.empty =
     (world0, Response 400 (Failure ''tenant_id is required'')) \<and>
   truthy (property body7 ''tenant_id'') \<and>
   status_of (snd (tenant_sync bind_number 1000 world0 body7)) \<noteq> 400 \<and>
   tenant_sync bind_number 1000 world0 [''tenant_id'' \<mapsto> JNum 0] =
     (world0, Response 400 (Failure ''tenant_id is required'')) \<and>
   truthy (JStr ''0'') \<and> bind_text (JStr ''0'') = Some 0 \<and>
   remotePool zero_world = Some \<lparr>r_fault = None, r_tenant = [tenant_zero, acme]\<rparr> \<and>
   filter (\<lambda>t. tenant_id t = 0) [tenant_zero, acme] = [tenant_zero] \<and>
   l_fault (syncPool zero_world) = None \<and>
   status_of (snd (tenant_sync bind_text 1000 zero_world [''tenant_id'' \<mapsto> JStr ''0''])) = 200 \<and>
   l_tenant (syncPool (fst (tenant_sync bind_text 1000 zero_world
      [''tenant_id'' \<mapsto> JStr ''0'']))) 0 = Some tenant_zero"
proof -
  have h1: "\<not> truthy (property Map.empty ''tenant_id'')"
    by (simp add: property_def)
  have h2: "truthy (property body7 ''tenant_id'')"
    by (simp add: body7_id)
  have h3: "truthy (JStr ''0'')"
    by simp
  have h4: "remotePool zero_world = Some \<lparr>r_fault = None, r_tenant = [tenant_zero, acme]\<rparr>"
    and h5: "l_fault (syncPool zero_world) = None"
    by (simp_all add: zero_world_def empty_local_def)
  have h6: "filter (\<lambda>t. tenant_id t = 0) [tenant_zero, acme] = [tenant_zero]"
    by (simp add: tenant_zero_def acme_def)
  have first: "tenant_sync bind_number 1000 world0 Map.empty =
       (world0, Response 400 (Failure ''tenant_id is required'')) \<and>
     tenant_sync bind_number 1000 world0 [''tenant_id'' \<mapsto> JNum 0] =
       (world0, Response 400 (Failure ''tenant_id is required''))"
    using tenant_sync_falsy_rejected
      [where body = Map.empty and bind = bind_number and now = 1000 and w = world0] h1
    by simp
  have second: "status_of (snd (tenant_sync bind_number 1000 world0 body7)) \<noteq> 400"
    using tenant_sync_falsy_rejected
      [where body = body7 and bind = bind_number and now = 1000 and w = world0] h2
    by simp
  have third: "status_of (snd (tenant_sync bind_text 1000 zero_world
        [''tenant_id'' \<mapsto> JStr ''0''])) = 200 \<and>
      l_tenant (syncPool (fst (tenant_sync bind_text 1000 zero_world
        [''tenant_id'' \<mapsto> JStr ''0'']))) 0 = Some tenant_zero"
    using tenant_sync_falsy_rejected
      [where body = Map.empty and bind = bind_text and now = 1000 and w = zero_world
         and v = "JStr ''0''" and r = "\<lparr>r_fault = None, r_tenant = [tenant_zero, acme]\<rparr>"
         and t = tenant_zero and ts = "[]"]
      h3 bind_text_zero h4 h5 h6
    by simp
  from h1 h2 h3 bind_text_zero h4 h5 h6 first second third show ?thesis
    by simp
qed

section \<open>Properties of the status queries\<close>

subsection \<open>Ordering by completion time\<close>

lemma order_desc_sorted:
  "sorted_wrt (\<lambda>a b. synced_at b \<le> synced_at a) (order_by_synced_at_desc ls)"
proof -
  have "sorted (map (\<lambda>l. - synced_at l) (order_by_synced_at_desc ls))"
    by (simp add: order_by_synced_at_desc_def)
  then show ?thesis
    by (simp add: sorted_map)
qed

lemma order_desc_mset: "mset (order_by_synced_at_desc ls) = mset ls"
  by (simp add: order_by_synced_at_desc_def)

lemma order_desc_set: "set (order_by_synced_at_desc ls) = set ls"
  by (simp add: order_by_synced_at_desc_def)

lemma limit_split:
  "\<forall>x\<in>set (take n (order_by_synced_at_desc ls)).
     \<forall>y\<in>set (drop n (order_by_synced_at_desc ls)). synced_at y \<le> synced_at x"
proof -
  have "sorted_wrt (\<lambda>a b. synced_at b \<le> synced_at a)
          (take n (order_by_synced_at_desc ls) @ drop n (order_by_synced_at_desc ls))"
    by (simp add: order_desc_sorted)
  then show ?thesis
    unfolding sorted_wrt_append by blast
qed

lemma order_desc_head:
  assumes "order_by_synced_at_desc ls = l # rest"
  shows "l \<in> set ls \<and> (\<forall>l'\<in>set ls. synced_at l' \<le> synced_at l)"
proof -
  have "sorted_wrt (\<lambda>a b. synced_at b \<le> synced_at a) (l # rest)"
    using order_desc_sorted [of ls] assms by simp
  then have "\<forall>l'\<in>set (l # rest). synced_at l' \<le> synced_at l"
    by auto
  moreover have "set (l # rest) = set ls"
    using order_desc_set [of ls] assms by simp
  ultimately show ?thesis by auto
qed

lemma head_is_latest:
  assumes "sorted_wrt (\<lambda>a b. synced_at b \<le> synced_at a) ls"
    and "filter P ls = l # rest"
  shows "l \<in> set ls \<and> P l \<and> (\<forall>l'\<in>set ls. P l' \<longrightarrow> synced_at l' \<le> synced_at l)"
proof -
  have srt: "sorted_wrt (\<lambda>a b. synced_at b \<le> synced_at a) (l # rest)"
    using assms sorted_wrt_filter by metis
  have mem: "set (l # rest) = {x \<in> set ls. P x}"
    using assms(2) by (metis set_filter)
  from srt have "\<forall>l'\<in>set (l # rest). synced_at l' \<le> synced_at l"
    by auto
  with mem show ?thesis by auto
qed

subsection \<open>The ten most recent log rows\<close>

lemma recent_logs_desc:
  "sorted_wrt (\<lambda>a b. synced_at b \<le> synced_at a) (recent_logs db)"
  unfolding recent_logs_def by (rule sorted_wrt_take) (rule order_desc_sorted)

lemma recent_logs_length: "length (recent_logs db) = min 10 (length (sync_log db))"
  by (simp add: recent_logs_def order_by_synced_at_desc_def min.commute)

lemma recent_logs_most_recent:
  "\<exists>older. mset (recent_logs db) + mset older = mset (sync_log db) \<and>
     (\<forall>x\<in>set (recent_logs db). \<forall>y\<in>set older. synced_at y \<le> synced_at x)"
proof -
  let ?s = "order_by_synced_at_desc (sync_log db)"
  have "mset (take 10 ?s) + mset (drop 10 ?s) = mset (sync_log db)"
    by (metis append_take_drop_id mset_append order_desc_mset)
  then show ?thesis
    unfolding recent_logs_def using limit_split by blast
qed

lemma failed_recent_short: "length (filter P (recent_logs db)) \<le> 10"
proof -
  have "length (filter P (recent_logs db)) \<le> length (recent_logs db)"
    by (rule length_filter_le)
  then show ?thesis
    by (simp add: recent_logs_length)
qed

lemma getStatus_ok:
  assumes "l_fault (syncPool w) = None"
  shows "snd (getStatus w) =
    Response 200
      (Body \<lparr>is_connected = (case remotePool w of None \<Rightarrow> False | Some r \<Rightarrow> r_fault r = None),
             last_sync_at =
               (case filter success (recent_logs (syncPool w)) of
                  [] \<Rightarrow> None | l # _ \<Rightarrow> Some (synced_at l)),
             queue_size = queue_count (syncPool w),
             sync_errors =
               map to_sync_error (filter (\<lambda>l. \<not> success l) (recent_logs (syncPool w)))\<rparr>)"
  using assms failed_recent_short [of "\<lambda>l. \<not> success l" "syncPool w"]
  by (simp add: getStatus_def probe_remote_def issue_def Let_def split: option.splits)

lemma getStatus_local_fault:
  "l_fault (syncPool w) = Some e \<Longrightarrow> snd (getStatus w) = Response 500 (Thrown e)"
  by (simp add: getStatus_def Let_def)

lemma example_status:
  "snd (getStatus status_world) =
   Response 200
     (Body \<lparr>is_connected = True, last_sync_at = Some 1000, queue_size = 2,
            sync_errors =
              map (\<lambda>(i, m). \<lparr>err_sync_log_id = i, err_batch_size = 5,
                              err_error_message = m, err_synced_at = 100 * i\<rparr>)
                [(12, ''timeout''), (11, ''Unknown error''), (9, ''timeout''),
                 (8, ''Unknown error''), (7, ''Unknown error''), (6, ''timeout''),
                 (4, ''Unknown error''), (3, ''timeout'')]\<rparr>)"
  by code_simp

text \<open>
  C2. When the local queries complete, \<open>getStatus\<close> answers 200 with: \<open>queue_size\<close>, the
  number of readings whose \<open>is_synchronized\<close> is false; \<open>sync_errors\<close>, at most ten
  entries, which are the rows with \<open>success = false\<close> among the ten most recent rows of the
  sync log, the latest completion time first, each reduced to its identifier, batch size,
  message and time, the message being \<open>Unknown error\<close> when the row has none; and
  \<open>last_sync_at\<close>, the completion time of the latest row with \<open>success = true\<close> among these
  ten rows, or null when none of them succeeded. The ten rows are the first ten of the log
  in descending completion time: no other row of the log is later than one of them.
\<close>

theorem getStatus_contract:
  assumes "l_fault (syncPool w) = None"
  shows "\<exists>b. snd (getStatus w) = Response 200 (Body b) \<and>
    queue_size b = length (filter (\<lambda>r. \<not> is_synchronized r) (meter_reading (syncPool w))) \<and>
    length (sync_errors b) \<le> 10 \<and>
    sync_errors b = map to_sync_error (filter (\<lambda>l. \<not> success l) (recent_logs (syncPool w))) \<and>
    sorted_wrt (\<lambda>e e'. err_synced_at e' \<le> err_synced_at e) (sync_errors b) \<and>
    (\<forall>l. error_message l = None \<longrightarrow> err_error_message (to_sync_error l) = ''Unknown error'') \<and>
    (\<forall>l m. error_message l = Some m \<and> m \<noteq> [] \<longrightarrow> err_error_message (to_sync_error l) = m) \<and>
    (last_sync_at b = None \<longleftrightarrow> (\<forall>l\<in>set (recent_logs (syncPool w)). \<not> success l)) \<and>
    (\<forall>t. last_sync_at b = Some t \<longrightarrow>
       (\<exists>l\<in>set (recent_logs (syncPool w)). success l \<and> synced_at l = t) \<and>
       (\<forall>l\<in>set (recent_logs (syncPool w)). success l \<longrightarrow> synced_at l \<le> t)) \<and>
    length (recent_logs (syncPool w)) = min 10 (length (sync_log (syncPool w))) \<and>
    sorted_wrt (\<lambda>a b. synced_at b \<le> synced_at a) (recent_logs (syncPool w)) \<and>
    (\<exists>older. mset (recent_logs (syncPool w)) + mset older = mset (sync_log (syncPool w)) \<and>
       (\<forall>x\<in>set (recent_logs (syncPool w)). \<forall>y\<in>set older. synced_at y \<le> synced_at x))"
proof -
  let ?recent = "recent_logs (syncPool w)"
  let ?b = "\<lparr>is_connected = (case remotePool w of None \<Rightarrow> False | Some r \<Rightarrow> r_fault r = None),
             last_sync_at =
               (case filter success ?recent of [] \<Rightarrow> None | l # _ \<Rightarrow> Some (synced_at l)),
             queue_size = queue_count (syncPool w),
             sync_errors = map to_sync_error (filter (\<lambda>l. \<not> success l) ?recent)\<rparr>"
  have resp: "snd (getStatus w) = Response 200 (Body ?b)"
    by (rule getStatus_ok [OF assms])
  have queue: "queue_size ?b =
      length (filter (\<lambda>r. \<not> is_synchronized r) (meter_reading (syncPool w)))"
    by (simp add: queue_count_def)
  have short: "length (sync_errors ?b) \<le> 10"
    using failed_recent_short [of "\<lambda>l. \<not> success l" "syncPool w"] by simp
  have drawn: "sync_errors ?b = map to_sync_error (filter (\<lambda>l. \<not> success l) ?recent)"
    by simp
  have "sorted_wrt (\<lambda>a b. synced_at b \<le> synced_at a) (filter (\<lambda>l. \<not> success l) ?recent)"
    by (rule sorted_wrt_filter) (rule recent_logs_desc)
  then have desc: "sorted_wrt (\<lambda>e e'. err_synced_at e' \<le> err_synced_at e) (sync_errors ?b)"
    by (simp add: sorted_wrt_map to_sync_error_def)
  have absent: "\<forall>l. error_message l = None \<longrightarrow>
      err_error_message (to_sync_error l) = ''Unknown error''"
    by (simp add: to_sync_error_def or_else_def)
  have present: "\<forall>l m. error_message l = Some m \<and> m \<noteq> [] \<longrightarrow>
      err_error_message (to_sync_error l) = m"
    by (simp add: to_sync_error_def or_else_def)
  have "(last_sync_at ?b = None) = (filter success ?recent = [])"
    by (simp split: list.splits)
  then have none: "last_sync_at ?b = None \<longleftrightarrow> (\<forall>l\<in>set ?recent. \<not> success l)"
    by (simp add: filter_empty_conv)
  have some: "\<forall>t. last_sync_at ?b = Some t \<longrightarrow>
       (\<exists>l\<in>set ?recent. success l \<and> synced_at l = t) \<and>
       (\<forall>l\<in>set ?recent. success l \<longrightarrow> synced_at l \<le> t)"
  proof (intro allI impI)
    fix t
    assume "last_sync_at ?b = Some t"
    then obtain l rest where f: "filter success ?recent = l # rest" and lt: "synced_at l = t"
      by (auto split: list.splits)
    from head_is_latest [OF recent_logs_desc f] lt
    show "(\<exists>l\<in>set ?recent. success l \<and> synced_at l = t) \<and>
          (\<forall>l\<in>set ?recent. success l \<longrightarrow> synced_at l \<le> t)"
      by auto
  qed
  from resp queue short drawn desc absent present none some
    recent_logs_length [of "syncPool w"] recent_logs_desc [of "syncPool w"]
    recent_logs_most_recent [of "syncPool w"]
  show ?thesis
    by (intro exI [of _ ?b] conjI)
qed

theorem getStatus_contract_witness:
  "l_fault (syncPool status_world) = None \<and>
   (\<exists>b. snd (getStatus status_world) = Response 200 (Body b) \<and>
        queue_size b = 2 \<and> length (sync_errors b) = 8 \<and> last_sync_at b = Some 1000 \<and>
        map err_sync_log_id (sync_errors b) = [12, 11, 9, 8, 7, 6, 4, 3] \<and>
        sorted_wrt (\<lambda>e e'. err_synced_at e' \<le> err_synced_at e) (sync_errors b))"
proof -
  have up: "l_fault (syncPool status_world) = None"
    by (simp add: status_world_def empty_local_def)
  from getStatus_contract [OF up] obtain b where
    b: "snd (getStatus status_world) = Response 200 (Body b)"
    and srt: "sorted_wrt (\<lambda>e e'. err_synced_at e' \<le> err_synced_at e) (sync_errors b)"
    by blast
  from b have "queue_size b = 2 \<and> length (sync_errors b) = 8 \<and> last_sync_at b = Some 1000 \<and>
      map err_sync_log_id (sync_errors b) = [12, 11, 9, 8, 7, 6, 4, 3]"
    by (auto simp: example_status)
  with up b srt show ?thesis
    by (intro conjI exI [of _ b]) simp_all
qed

subsection \<open>The latest upload\<close>

lemma last_upload_rows_none:
  "last_upload_rows db = [] \<longleftrightarrow> (\<forall>l\<in>set (sync_log db). operation_type l \<noteq> ''upload'')"
proof -
  have "last_upload_rows db = [] \<longleftrightarrow>
        order_by_synced_at_desc (filter (\<lambda>l. operation_type l = ''upload'') (sync_log db)) = []"
    by (simp add: last_upload_rows_def take_eq_Nil)
  also have "\<dots> \<longleftrightarrow> filter (\<lambda>l. operation_type l = ''upload'') (sync_log db) = []"
    using order_desc_set [of "filter (\<lambda>l. operation_type l = ''upload'') (sync_log db)"]
    by (metis set_empty)
  finally show ?thesis
    by (simp add: filter_empty_conv)
qed

lemma last_upload_rows_latest:
  assumes "last_upload_rows db = l # rest"
  shows "rest = [] \<and> l \<in> set (sync_log db) \<and> operation_type l = ''upload'' \<and>
         (\<forall>l'\<in>set (sync_log db). operation_type l' = ''upload'' \<longrightarrow> synced_at l' \<le> synced_at l)"
proof -
  let ?ups = "filter (\<lambda>l. operation_type l = ''upload'') (sync_log db)"
  obtain s where s: "order_by_synced_at_desc ?ups = l # s" and r: "rest = []"
    using assms unfolding last_upload_rows_def
    by (cases "order_by_synced_at_desc ?ups") auto
  from order_desc_head [OF s] r show ?thesis
    by auto
qed

lemma getUploadStatus_ok:
  assumes "l_fault (syncPool w) = None"
  shows "snd (getUploadStatus w) =
    Response 200
      (Body \<lparr>is_running = False,
             last_upload_time =
               map_option synced_at
                 (case last_upload_rows (syncPool w) of [] \<Rightarrow> None | l # _ \<Rightarrow> Some l),
             last_upload_success =
               map_option success
                 (case last_upload_rows (syncPool w) of [] \<Rightarrow> None | l # _ \<Rightarrow> Some l),
             last_upload_error =
               (case (case last_upload_rows (syncPool w) of [] \<Rightarrow> None | l # _ \<Rightarrow> Some l) of
                  None \<Rightarrow> None
                | Some l \<Rightarrow> or_else (error_message l) None Some),
             upload_queue_size = queue_count (syncPool w),
             total_uploaded = 0,
             total_failed = 0,
             is_client_connected =
               (case remotePool w of None \<Rightarrow> False | Some r \<Rightarrow> r_fault r = None)\<rparr>)"
  using assms
  by (simp add: getUploadStatus_def probe_remote_def issue_def Let_def split: option.splits)

lemma getUploadStatus_local_fault:
  "l_fault (syncPool w) = Some e \<Longrightarrow> snd (getUploadStatus w) = Response 500 (Thrown e)"
  by (simp add: getUploadStatus_def Let_def)

lemma getUploadStatus_never_running:
  "payload_of (snd (getUploadStatus w)) = Body b \<Longrightarrow> \<not> is_running b"
  by (cases "l_fault (syncPool w)")
    (auto simp: getUploadStatus_def probe_remote_def issue_def Let_def split: option.splits)

lemma example_upload_status:
  "snd (getUploadStatus status_world) =
   Response 200
     (Body \<lparr>is_running = False, last_upload_time = Some 1200,
            last_upload_success = Some False, last_upload_error = Some ''timeout'',
            upload_queue_size = 2, total_uploaded = 0, total_failed = 0,
            is_client_connected = True\<rparr>)"
  by code_simp

text \<open>
  C8. Every body \<open>getUploadStatus\<close> answers has \<open>is_running = false\<close>, whatever the state.
  When the local queries complete it answers 200 with the queue size, the number of
  readings whose \<open>is_synchronized\<close> is false, and with the time, the success flag and the
  error of the one latest log row whose operation type is \<open>upload\<close>: all three are null
  when the log has no such row; otherwise the time and the flag are the row's, and the
  error is the row's message (null for a row without a message, or with an empty one).
  That row is an upload row of the log, and no upload row completed later.
\<close>

theorem getUploadStatus_contract:
  "(\<forall>b. payload_of (snd (getUploadStatus w)) = Body b \<longrightarrow> \<not> is_running b) \<and>
   (l_fault (syncPool w) = None \<longrightarrow>
     (\<exists>b. snd (getUploadStatus w) = Response 200 (Body b) \<and>
        \<not> is_running b \<and>
        upload_queue_size b =
          length (filter (\<lambda>r. \<not> is_synchronized r) (meter_reading (syncPool w))) \<and>
        ((\<forall>l\<in>set (sync_log (syncPool w)). operation_type l \<noteq> ''upload'') \<longrightarrow>
           last_upload_time b = None \<and> last_upload_success b = None \<and>
           last_upload_error b = None) \<and>
        (\<forall>l rest. last_upload_rows (syncPool w) = l # rest \<longrightarrow>
           last_upload_time b = Some (synced_at l) \<and>
           last_upload_success b = Some (success l) \<and>
           last_upload_error b = or_else (error_message l) None Some))) \<and>
   (last_upload_rows (syncPool w) = [] \<longleftrightarrow>
      (\<forall>l\<in>set (sync_log (syncPool w)). operation_type l \<noteq> ''upload'')) \<and>
   (\<forall>l rest. last_upload_rows (syncPool w) = l # rest \<longrightarrow>
      rest = [] \<and> l \<in> set (sync_log (syncPool w)) \<and> operation_type l = ''upload'' \<and>
      (\<forall>l'\<in>set (sync_log (syncPool w)).
          operation_type l' = ''upload'' \<longrightarrow> synced_at l' \<le> synced_at l))"
proof -
  let ?last = "case last_upload_rows (syncPool w) of [] \<Rightarrow> None | l # _ \<Rightarrow> Some l"
  let ?b = "\<lparr>is_running = False,
             last_upload_time = map_option synced_at ?last,
             last_upload_success = map_option success ?last,
             last_upload_error =
               (case ?last of None \<Rightarrow> None | Some l \<Rightarrow> or_else (error_message l) None Some),
             upload_queue_size = queue_count (syncPool w),
             total_uploaded = 0,
             total_failed = 0,
             is_client_connected =
               (case remotePool w of None \<Rightarrow> False | Some r \<Rightarrow> r_fault r = None)\<rparr>"
  have never: "\<forall>b. payload_of (snd (getUploadStatus w)) = Body b \<longrightarrow> \<not> is_running b"
    using getUploadStatus_never_running by blast
  have ok: "l_fault (syncPool w) = None \<longrightarrow>
     (\<exists>b. snd (getUploadStatus w) = Response 200 (Body b) \<and>
        \<not> is_running b \<and>
        upload_queue_size b =
          length (filter (\<lambda>r. \<not> is_synchronized r) (meter_reading (syncPool w))) \<and>
        ((\<forall>l\<in>set (sync_log (syncPool w)). operation_type l \<noteq> ''upload'') \<longrightarrow>
           last_upload_time b = None \<and> last_upload_success b = None \<and>
           last_upload_error b = None) \<and>
        (\<forall>l rest. last_upload_rows (syncPool w) = l # rest \<longrightarrow>
           last_upload_time b = Some (synced_at l) \<and>
           last_upload_success b = Some (success l) \<and>
           last_upload_error b = or_else (error_message l) None Some))"
  proof
    assume up: "l_fault (syncPool w) = None"
    have resp: "snd (getUploadStatus w) = Response 200 (Body ?b)"
      by (rule getUploadStatus_ok [OF up])
    have run: "\<not> is_running ?b" by simp
    have queue: "upload_queue_size ?b =
        length (filter (\<lambda>r. \<not> is_synchronized r) (meter_reading (syncPool w)))"
      by (simp add: queue_count_def)
    have none: "(\<forall>l\<in>set (sync_log (syncPool w)). operation_type l \<noteq> ''upload'') \<longrightarrow>
        last_upload_time ?b = None \<and> last_upload_success ?b = None \<and>
        last_upload_error ?b = None"
    proof
      assume "\<forall>l\<in>set (sync_log (syncPool w)). operation_type l \<noteq> ''upload''"
      then have "last_upload_rows (syncPool w) = []"
        by (simp add: last_upload_rows_none)
      then show "last_upload_time ?b = None \<and> last_upload_success ?b = None \<and>
          last_upload_error ?b = None"
        by simp
    qed
    have some: "\<forall>l rest. last_upload_rows (syncPool w) = l # rest \<longrightarrow>
        last_upload_time ?b = Some (synced_at l) \<and>
        last_upload_success ?b = Some (success l) \<and>
        last_upload_error ?b = or_else (error_message l) None Some"
      by simp
    from resp run queue none some
    show "\<exists>b. snd (getUploadStatus w) = Response 200 (Body b) \<and>
        \<not> is_running b \<and>
        upload_queue_size b =
          length (filter (\<lambda>r. \<not> is_synchronized r) (meter_reading (syncPool w))) \<and>
        ((\<forall>l\<in>set (sync_log (syncPool w)). operation_type l \<noteq> ''upload'') \<longrightarrow>
           last_upload_time b = None \<and> last_upload_success b = None \<and>
           last_upload_error b = None) \<and>
        (\<forall>l rest. last_upload_rows (syncPool w) = l # rest \<longrightarrow>
           last_upload_time b = Some (synced_at l) \<and>
           last_upload_success b = Some (success l) \<and>
           last_upload_error b = or_else (error_message l) None Some)"
      by (intro exI [of _ ?b] conjI)
  qed
  show ?thesis
    using never ok last_upload_rows_none [of "syncPool w"] last_upload_rows_latest [of "syncPool w"]
    by blast
qed

theorem getUploadStatus_contract_witness:
  "l_fault (syncPool status_world) = None \<and>
   (\<exists>b. snd (getUploadStatus status_world) = Response 200 (Body b) \<and> \<not> is_running b \<and>
        upload_queue_size b = 2 \<and> last_upload_time b = Some 1200 \<and>
        last_upload_success b = Some False \<and> last_upload_error b = Some ''timeout'') \<and>
   l_fault (syncPool world0) = None \<and>
   (\<exists>b. snd (getUploadStatus world0) = Response 200 (Body b) \<and> \<not> is_running b \<and>
        last_upload_time b = None \<and> last_upload_success b = None \<and>
        last_upload_error b = None)"
proof -
  have up: "l_fault (syncPool status_world) = None"
    by (simp add: status_world_def empty_local_def)
  from getUploadStatus_contract [of status_world] up obtain b where
    b: "snd (getUploadStatus status_world) = Response 200 (Body b)" and "\<not> is_running b"
    by blast
  then have one: "\<exists>b. snd (getUploadStatus status_world) = Response 200 (Body b) \<and>
        \<not> is_running b \<and> upload_queue_size b = 2 \<and> last_upload_time b = Some 1200 \<and>
        last_upload_success b = Some False \<and> last_upload_error b = Some ''timeout''"
    by (auto simp: example_upload_status)
  have no_rows: "\<forall>l\<in>set (sync_log (syncPool world0)). operation_type l \<noteq> ''upload''"
    by (simp add: world0_def empty_local_def)
  from getUploadStatus_contract [of world0] world0_fields(2) no_rows
  have two: "\<exists>b. snd (getUploadStatus world0) = Response 200 (Body b) \<and> \<not> is_running b \<and>
        last_upload_time b = None \<and> last_upload_success b = None \<and>
        last_upload_error b = None"
    by blast
  from up one world0_fields(2) two show ?thesis
    by blast
qed

section \<open>Properties of the connectivity monitor\<close>

lemma checkConnection_connected:
  "fst (checkConnection fb timeout) \<longleftrightarrow>
     (\<exists>t st. fb = Resolves t st \<and> t < timeout \<and> 200 \<le> st \<and> st \<le> 299)"
  by (cases fb) (auto simp: checkConnection_def response_ok_def)

lemma checkConnection_settles: "snd (checkConnection fb timeout) \<le> timeout"
  by (cases fb) (auto simp: checkConnection_def)

lemma to_state_simps:
  "to_state c = CONNECTED \<longleftrightarrow> c"
  "to_state c = DISCONNECTED \<longleftrightarrow> \<not> c"
  "to_state c \<noteq> ERROR"
  "to_state c \<noteq> CHECKING"
  by (simp_all add: to_state_def)

lemma checkAllConnections_result:
  "checkAllConnections net prev =
     (\<lparr>syncDb = to_state (fst (checkConnection (net ''/api/health/sync-db'') CHECK_TIMEOUT)),
       remoteDb = to_state (fst (checkConnection (net ''/api/health/remote-db'') CHECK_TIMEOUT)),
       remoteApi = to_state (fst (checkConnection (net ''/api/local/sync-status'') CHECK_TIMEOUT))\<rparr>,
      snd (checkConnection (net ''/api/health/sync-db'') CHECK_TIMEOUT) +
      snd (checkConnection (net ''/api/health/remote-db'') CHECK_TIMEOUT) +
      snd (checkConnection (net ''/api/local/sync-status'') CHECK_TIMEOUT))"
  by (simp add: checkAllConnections_def split_beta Let_def)

text \<open>
  C6. After a pass of the monitor, whatever the three fetches do and whatever the state
  was before, the state of each endpoint is \<open>CONNECTED\<close> or \<open>DISCONNECTED\<close>: it is
  \<open>CONNECTED\<close> exactly when the fetch resolved before the 5000 ms timer with a status
  from 200 to 299, and \<open>DISCONNECTED\<close> in every other case (another status, a rejected
  fetch, an abort by the timer). It is never \<open>ERROR\<close> and no longer \<open>CHECKING\<close>. Every
  probe settles within 5000 ms, also when its fetch stays pending, so the pass ends
  within 15000 ms.
\<close>

theorem monitor_pass_connected_or_disconnected:
  "(syncDb (fst (checkAllConnections net prev)) = CONNECTED \<longleftrightarrow>
      (\<exists>t st. net ''/api/health/sync-db'' = Resolves t st \<and> t < 5000 \<and>
         200 \<le> st \<and> st \<le> 299)) \<and>
   (syncDb (fst (checkAllConnections net prev)) = DISCONNECTED \<longleftrightarrow>
      \<not> (\<exists>t st. net ''/api/health/sync-db'' = Resolves t st \<and> t < 5000 \<and>
         200 \<le> st \<and> st \<le> 299)) \<and>
   (remoteDb (fst (checkAllConnections net prev)) = CONNECTED \<longleftrightarrow>
      (\<exists>t st. net ''/api/health/remote-db'' = Resolves t st \<and> t < 5000 \<and>
         200 \<le> st \<and> st \<le> 299)) \<and>
   (remoteDb (fst (checkAllConnections net prev)) = DISCONNECTED \<longleftrightarrow>
      \<not> (\<exists>t st. net ''/api/health/remote-db'' = Resolves t st \<and> t < 5000 \<and>
         200 \<le> st \<and> st \<le> 299)) \<and>
   (remoteApi (fst (checkAllConnections net prev)) = CONNECTED \<longleftrightarrow>
      (\<exists>t st. net ''/api/local/sync-status'' = Resolves t st \<and> t < 5000 \<and>
         200 \<le> st \<and> st \<le> 299)) \<and>
   (remoteApi (fst (checkAllConnections net prev)) = DISCONNECTED \<longleftrightarrow>
      \<not> (\<exists>t st. net ''/api/local/sync-status'' = Resolves t st \<and> t < 5000 \<and>
         200 \<le> st \<and> st \<le> 299)) \<and>
   syncDb (fst (checkAllConnections net prev)) \<noteq> ERROR \<and>
   remoteDb (fst (checkAllConnections net prev)) \<noteq> ERROR \<and>
   remoteApi (fst (checkAllConnections net prev)) \<noteq> ERROR \<and>
   syncDb (fst (checkAllConnections net prev)) \<noteq> CHECKING \<and>
   remoteDb (fst (checkAllConnections net prev)) \<noteq> CHECKING \<and>
   remoteApi (fst (checkAllConnections net prev)) \<noteq> CHECKING \<and>
   snd (checkConnection fb CHECK_TIMEOUT) \<le> 5000 \<and>
   snd (checkAllConnections net prev) \<le> 15000"
proof -
  have limit: "CHECK_TIMEOUT = 5000"
    by (simp add: CHECK_TIMEOUT_def)
  have total: "snd (checkAllConnections net prev) \<le> 15000"
    using checkConnection_settles [of "net ''/api/health/sync-db''" CHECK_TIMEOUT]
      checkConnection_settles [of "net ''/api/health/remote-db''" CHECK_TIMEOUT]
      checkConnection_settles [of "net ''/api/local/sync-status''" CHECK_TIMEOUT]
    by (simp add: checkAllConnections_result limit)
  have one: "snd (checkConnection fb CHECK_TIMEOUT) \<le> 5000"
    using checkConnection_settles [of fb CHECK_TIMEOUT] by (simp add: limit)
  show ?thesis
    using total one
    by (simp add: checkAllConnections_result to_state_simps checkConnection_connected limit)
qed

text \<open>
  C7. In every state of the monitor, \<open>isAllConnected\<close> holds exactly when the local sync
  database, the remote database and the remote API are all \<open>CONNECTED\<close>, and
  \<open>isRemoteSystemConnected\<close> holds exactly when the remote database and the remote API
  are; the state of the local store does not enter the second flag. With the local store
  disconnected and both remote endpoints connected, \<open>isRemoteSystemConnected\<close> is true
  and \<open>isAllConnected\<close> is false, also when that state comes from a pass of the monitor
  in which the local health endpoint answered 503.
\<close>

theorem aggregate_flags:
  "(isAllConnected s \<longleftrightarrow>
      syncDb s = CONNECTED \<and> remoteDb s = CONNECTED \<and> remoteApi s = CONNECTED) \<and>
   (isRemoteSystemConnected s \<longleftrightarrow> remoteDb s = CONNECTED \<and> remoteApi s = CONNECTED) \<and>
   isRemoteSystemConnected (s\<lparr>syncDb := x\<rparr>) = isRemoteSystemConnected s \<and>
   isRemoteSystemConnected
     \<lparr>syncDb = DISCONNECTED, remoteDb = CONNECTED, remoteApi = CONNECTED\<rparr> \<and>
   \<not> isAllConnected \<lparr>syncDb = DISCONNECTED, remoteDb = CONNECTED, remoteApi = CONNECTED\<rparr> \<and>
   fst (checkAllConnections local_down_net initial_status) =
     \<lparr>syncDb = DISCONNECTED, remoteDb = CONNECTED, remoteApi = CONNECTED\<rparr>"
proof -
  have pass: "fst (checkAllConnections local_down_net initial_status) =
     \<lparr>syncDb = DISCONNECTED, remoteDb = CONNECTED, remoteApi = CONNECTED\<rparr>"
    by (simp add: checkAllConnections_result checkConnection_def local_down_net_def
        CHECK_TIMEOUT_def response_ok_def to_state_def)
  then show ?thesis
    by (simp add: isAllConnected_def isRemoteSystemConnected_def)
qed

section \<open>Properties of pool initialization\<close>

text \<open>
  C9, as the claim states it: a failure of the startup test against the local store is
  fatal, unlike one against the remote store. It is not: with the local store out of
  reach \<open>initializePools\<close> returns, both pools assigned, and \<open>startServer\<close> goes on to
  listen, exactly as it does with the remote store out of reach.
\<close>

theorem startup_local_failure_not_fatal:
  "l_fault broken_local = Some ''ECONNREFUSED'' \<and>
   fst (initializePools broken_local remote_acme) =
     Inr \<lparr>remotePool = Some remote_acme, syncPool = broken_local,
          accesses = [SyncAccess, RemoteAccess]\<rparr> \<and>
   startServer broken_local remote_acme =
     Listening \<lparr>remotePool = Some remote_acme, syncPool = broken_local,
                accesses = [SyncAccess, RemoteAccess]\<rparr> \<and>
   r_fault broken_remote = Some ''ECONNREFUSED'' \<and>
   startServer empty_local broken_remote =
     Listening \<lparr>remotePool = Some broken_remote, syncPool = empty_local,
                accesses = [SyncAccess, RemoteAccess]\<rparr>"
  by (simp add: broken_local_def broken_remote_def initializePools_def startServer_def
      issue_def)

text \<open>
  C9, amended. At pool initialization the failure of either startup test is caught and
  printed, the remote one as a warning and the local one as an error, and in every case
  initialization completes with both pools assigned and the server starts listening:
  initialization treats both failures as non-fatal. While the local store stays out of
  reach, the status queries that follow answer 500.
\<close>

theorem initializePools_completes:
  "fst (initializePools local remote) =
     Inr \<lparr>remotePool = Some remote, syncPool = local, accesses = [SyncAccess, RemoteAccess]\<rparr> \<and>
   startServer local remote =
     Listening \<lparr>remotePool = Some remote, syncPool = local,
                accesses = [SyncAccess, RemoteAccess]\<rparr> \<and>
   (r_fault remote \<noteq> None \<longrightarrow>
      ConsoleWarn ''Failed to connect to remote database''
        \<in> set (snd (initializePools local remote))) \<and>
   (l_fault local \<noteq> None \<longrightarrow>
      ConsoleError ''Failed to connect to sync database''
        \<in> set (snd (initializePools local remote))) \<and>
   (\<forall>w e. startServer local remote = Listening w \<and> l_fault local = Some e \<longrightarrow>
      snd (getStatus w) = Response 500 (Thrown e) \<and>
      snd (getUploadStatus w) = Response 500 (Thrown e))"
proof -
  let ?w = "\<lparr>remotePool = Some remote, syncPool = local, accesses = [SyncAccess, RemoteAccess]\<rparr>"
  have init: "fst (initializePools local remote) = Inr ?w"
    by (simp add: initializePools_def issue_def)
  then have start: "startServer local remote = Listening ?w"
    by (simp add: startServer_def)
  have warn: "r_fault remote \<noteq> None \<longrightarrow>
      ConsoleWarn ''Failed to connect to remote database''
        \<in> set (snd (initializePools local remote))"
    by (auto simp: initializePools_def)
  have err: "l_fault local \<noteq> None \<longrightarrow>
      ConsoleError ''Failed to connect to sync database''
        \<in> set (snd (initializePools local remote))"
    by (auto simp: initializePools_def)
  have later: "\<forall>w e. startServer local remote = Listening w \<and> l_fault local = Some e \<longrightarrow>
      snd (getStatus w) = Response 500 (Thrown e) \<and>
      snd (getUploadStatus w) = Response 500 (Thrown e)"
    using start by (auto simp: getStatus_local_fault getUploadStatus_local_fault)
  from init start warn err later show ?thesis
    by (intro conjI)
qed

theorem initializePools_completes_witness:
  "r_fault broken_remote \<noteq> None \<and> l_fault broken_local = Some ''ECONNREFUSED'' \<and>
   startServer broken_local broken_remote =
     Listening \<lparr>remotePool = Some broken_remote, syncPool = broken_local,
                accesses = [SyncAccess, RemoteAccess]\<rparr> \<and>
   ConsoleWarn ''Failed to connect to remote database''
     \<in> set (snd (initializePools broken_local broken_remote)) \<and>
   ConsoleError ''Failed to connect to sync database''
     \<in> set (snd (initializePools broken_local broken_remote)) \<and>
   snd (getStatus \<lparr>remotePool = Some broken_remote, syncPool = broken_local,
                   accesses = [SyncAccess, RemoteAccess]\<rparr>) =
     Response 500 (Thrown ''ECONNREFUSED'')"
proof -
  have r: "r_fault broken_remote \<noteq> None"
    and l: "l_fault broken_local = Some ''ECONNREFUSED''"
    by (simp_all add: broken_remote_def broken_local_def)
  from l have l': "l_fault broken_local \<noteq> None"
    by simp
  from initializePools_completes [of broken_local broken_remote] r l l' show ?thesis
    by blast
qed

end
